theory Spec2Isabelle
  imports Complex_Main
begin

section \<open>Python values used by \<open>timer.py\<close>\<close>

text \<open>
  \<open>str\<close> of a Python integer (decimal, a leading minus sign for negative values), as the
  f-string \<open>f"Timer#{n}"\<close> formats it.
\<close>

definition digit_char :: "nat \<Rightarrow> char" where
  "digit_char d = ''0123456789'' ! d"

fun str_nat :: "nat \<Rightarrow> string" where
  "str_nat n = (if n < 10 then [digit_char n] else str_nat (n div 10) @ [digit_char (n mod 10)])"

declare str_nat.simps [simp del]

definition str_int :: "int \<Rightarrow> string" where
  "str_int i = (if i < 0 then CHR ''-'' # str_nat (nat (- i)) else str_nat (nat i))"

text \<open>
  Times are Python floats. A finite float is the real number it denotes. \<open>int(x)\<close> on a
  finite float truncates towards zero.
\<close>

definition py_int :: "real \<Rightarrow> int" where
  "py_int x = (if 0 \<le> x then \<lfloor>x\<rfloor> else \<lceil>x\<rceil>)"

text \<open>
  The exceptions that can travel through the timer. \<open>UserException\<close> stands for any
  instance of \<open>Exception\<close> raised by user code, \<open>SystemSignal\<close> for the instances of
  \<open>BaseException\<close> that are not instances of \<open>Exception\<close> (\<open>KeyboardInterrupt\<close>,
  \<open>SystemExit\<close>). \<open>CancelledError\<close> derives from \<open>BaseException\<close> since Python 3.8
  and from \<open>Exception\<close> in 3.7; \<open>_tick\<close> tests for it first, so the difference is never
  observed.
\<close>

datatype exn =
    CancelledError
  | EventTargetGone
  | ZeroDivisionError
  | OverflowError
  | UserException nat
  | SystemSignal nat

fun is_Exception :: "exn \<Rightarrow> bool" where
  "is_Exception CancelledError = False"
| "is_Exception EventTargetGone = True"
| "is_Exception ZeroDivisionError = True"
| "is_Exception OverflowError = True"
| "is_Exception (UserException _) = True"
| "is_Exception (SystemSignal _) = False"

section \<open>The \<open>Timer\<close> class\<close>

record event_target =
  obj_id :: nat
  obj_repr :: string

datatype callback = Callback nat

text \<open>The class object: its only attribute is \<open>_timer_count: int = 1\<close>.\<close>

record timer_class =
  cls_timer_count :: int

definition Timer :: timer_class where
  "Timer = \<lparr>cls_timer_count = 1\<rparr>"

text \<open>
  An instance. \<open>timer_count\<close> is the entry \<open>_timer_count\<close> of the instance dictionary,
  absent until something assigns to \<open>self._timer_count\<close>. \<open>task\<close> tells whether
  \<open>_task\<close> holds a task, \<open>active\<close> is the cached \<open>_active\<close> event: \<open>None\<close> until first
  use, then the flag of the \<open>asyncio.Event\<close>.
\<close>

record timer =
  target_repr :: string
  weak_target :: nat
  interval :: real
  name :: string
  timer_count :: "int option"
  callback :: "callback option"
  repeat :: "int option"
  skip :: bool
  task :: bool
  reset :: bool
  original_pause :: bool
  active :: "bool option"

text \<open>
  Attribute lookup \<open>self._timer_count\<close>: the instance dictionary first, then the class.
\<close>

definition getattr_timer_count :: "timer_class \<Rightarrow> int option \<Rightarrow> int" where
  "getattr_timer_count cls inst = (case inst of Some v \<Rightarrow> v | None \<Rightarrow> cls_timer_count cls)"

text \<open>
  \<open>Timer.__init__\<close>. The class is passed in and returned, so that what the constructor
  does to the class attribute is visible. \<open>self._timer_count += 1\<close> reads through the
  attribute lookup and assigns to the instance.
\<close>

definition init ::
  "timer_class \<Rightarrow> event_target \<Rightarrow> real \<Rightarrow> string option \<Rightarrow> callback option \<Rightarrow>
   int option \<Rightarrow> bool \<Rightarrow> bool \<Rightarrow> timer_class \<times> timer" where
  "init cls event_target interval' name' callback' repeat' skip' pause' =
     (let fresh = None;
          name'' = (case name' of
                      None \<Rightarrow> ''Timer#'' @ str_int (getattr_timer_count cls fresh)
                    | Some n \<Rightarrow> n);
          count' = Some (getattr_timer_count cls fresh + 1)
      in (cls,
          \<lparr>target_repr = obj_repr event_target,
           weak_target = obj_id event_target,
           interval = interval',
           name = name'',
           timer_count = count',
           callback = callback',
           repeat = repeat',
           skip = skip',
           task = False,
           reset = False,
           original_pause = pause',
           active = None\<rparr>))"

text \<open>Constructing several timers one after the other, each without a name.\<close>

fun construct_unnamed :: "timer_class \<Rightarrow> (event_target \<times> real) list \<Rightarrow> timer_class \<times> timer list" where
  "construct_unnamed cls [] = (cls, [])"
| "construct_unnamed cls ((tgt, iv) # rest) =
     (let (cls1, t) = init cls tgt iv None None None True False;
          (cls2, ts) = construct_unnamed cls1 rest
      in (cls2, t # ts))"

section \<open>The task of a timer and its environment\<close>

text \<open>
  The control methods a host can call on a timer while the timer's task is suspended (or
  from inside the callback).
\<close>

datatype call = Pause | Resume | Reset | Stop

record timer_event =
  ev_timer :: string
  ev_time :: real
  ev_count :: int
  ev_callback :: "callback option"

text \<open>
  What the task does, in order. \<open>GateWait b\<close> is \<open>await self._active.wait()\<close>, with
  \<open>b\<close> telling whether the event was clear, so that the task had to suspend. \<open>Tick\<close> is
  the entry into \<open>_tick\<close>, \<open>Invoke\<close> the call of the callback, \<open>HandleException\<close> the
  call of \<open>app._handle_exception\<close>, \<open>PostMessage\<close> the call of \<open>post_message\<close> on the
  target. \<open>Called\<close> records a control method called by the host.
\<close>

datatype action =
    GateWait bool
  | GetTime real
  | Sleep real
  | Called call
  | Tick real int
  | Invoke
  | HandleException exn
  | PostMessage nat timer_event

text \<open>
  The collaborators that are not part of \<open>timer.py\<close>, as oracles: the value returned by
  the k-th call of \<open>_time.get_time\<close>, the control methods called during the k-th
  suspension of the task, and, for the k-th call of \<open>_tick\<close>, the flag \<open>app._exit\<close>,
  whether the weak reference still resolves, and what \<open>invoke(callback)\<close> does
  (\<open>None\<close>: it returns).
\<close>

record env =
  clock :: "nat \<Rightarrow> real"
  host_calls :: "nat \<Rightarrow> call list"
  app_exit :: "nat \<Rightarrow> bool"
  alive :: "nat \<Rightarrow> bool"
  invoke :: "nat \<Rightarrow> exn option"

text \<open>
  The timer together with the bookkeeping of its task: \<open>must_cancel\<close> is a pending
  \<open>task.cancel()\<close>, delivered as \<open>CancelledError\<close> at the next suspension; the three
  counters index the oracles; \<open>trace\<close> is what has happened so far.
\<close>

record task_state = timer +
  must_cancel :: bool
  time_calls :: nat
  suspensions :: nat
  ticks :: nat
  trace :: "action list"

definition log :: "action \<Rightarrow> task_state \<Rightarrow> task_state" where
  "log a w = w\<lparr>trace := trace w @ [a]\<rparr>"

subsection \<open>The gate and the control methods\<close>

text \<open>The cached property \<open>_active\<close>: created on first access, set unless the timer starts paused.\<close>

definition active_event :: "task_state \<Rightarrow> task_state" where
  "active_event w = (case active w of
                       Some _ \<Rightarrow> w
                     | None \<Rightarrow> w\<lparr>active := Some (\<not> original_pause w)\<rparr>)"

definition start_task :: "task_state \<Rightarrow> task_state" where
  "start_task w = w\<lparr>task := True\<rparr>"

definition stop :: "task_state \<Rightarrow> task_state" where
  "stop w = (if \<not> task w then w
             else (active_event w)\<lparr>active := Some True, must_cancel := True, task := False\<rparr>)"

definition pause :: "task_state \<Rightarrow> task_state" where
  "pause w = (active_event w)\<lparr>active := Some False\<rparr>"

definition reset_timer :: "task_state \<Rightarrow> task_state" where
  "reset_timer w = (active_event w)\<lparr>active := Some True, reset := True\<rparr>"

definition resume :: "task_state \<Rightarrow> task_state" where
  "resume w = (active_event w)\<lparr>active := Some True\<rparr>"

fun apply_call :: "task_state \<Rightarrow> call \<Rightarrow> task_state" where
  "apply_call w Pause = pause (log (Called Pause) w)"
| "apply_call w Resume = resume (log (Called Resume) w)"
| "apply_call w Reset = reset_timer (log (Called Reset) w)"
| "apply_call w Stop = stop (log (Called Stop) w)"

text \<open>A suspension of the task: the host runs and makes its calls.\<close>

definition suspend :: "env \<Rightarrow> task_state \<Rightarrow> task_state" where
  "suspend e w = foldl apply_call (w\<lparr>suspensions := suspensions w + 1\<rparr>) (host_calls e (suspensions w))"

datatype 'a outcome = Returns 'a | Raises exn | Suspended

text \<open>\<open>_time.get_time()\<close>.\<close>

definition get_time :: "env \<Rightarrow> task_state \<Rightarrow> real \<times> task_state" where
  "get_time e w = (let t = clock e (time_calls w)
                   in (t, log (GetTime t) (w\<lparr>time_calls := time_calls w + 1\<rparr>)))"

text \<open>
  \<open>await sleep(wait_time)\<close>: always a suspension; a pending cancellation is raised here.
\<close>

definition sleep :: "env \<Rightarrow> real \<Rightarrow> task_state \<Rightarrow> unit outcome \<times> task_state" where
  "sleep e wait_time w =
     (let w1 = suspend e (log (Sleep wait_time) w)
      in if must_cancel w1 then (Raises CancelledError, w1\<lparr>must_cancel := False\<rparr>)
         else (Returns (), w1))"

text \<open>
  \<open>await self._active.wait()\<close>. On a set event it returns at once, without suspending. On
  a clear event the task suspends; it is woken by a call that sets the event (\<open>resume\<close>,
  \<open>reset\<close>), is cancelled by \<open>stop\<close>, and stays suspended when the host makes no such
  call.
\<close>

fun sets_event :: "call \<Rightarrow> bool" where
  "sets_event Pause = False"
| "sets_event Resume = True"
| "sets_event Reset = True"
| "sets_event Stop = False"

definition wait :: "env \<Rightarrow> task_state \<Rightarrow> unit outcome \<times> task_state" where
  "wait e w0 =
     (let w = active_event w0
      in if active w = Some True then (Returns (), log (GateWait False) w)
         else
           (let cs = host_calls e (suspensions w);
                w1 = suspend e (log (GateWait True) w)
            in if must_cancel w1 then (Raises CancelledError, w1\<lparr>must_cancel := False\<rparr>)
               else if list_ex sets_event cs then (Returns (), w1)
               else (Suspended, w1)))"

subsection \<open>Dispatch\<close>

text \<open>The property \<open>target\<close>, read during the k-th call of \<open>_tick\<close>.\<close>

definition target :: "env \<Rightarrow> nat \<Rightarrow> task_state \<Rightarrow> exn + nat" where
  "target e k w =
     (case (if alive e k then Some (weak_target w) else None) of
        None \<Rightarrow> Inl EventTargetGone
      | Some t \<Rightarrow> Inr t)"

text \<open>
  \<open>_tick\<close>. The call of the callback is a suspension of the task (the callback may await,
  and may itself call the control methods).
\<close>

definition tick :: "env \<Rightarrow> real \<Rightarrow> int \<Rightarrow> task_state \<Rightarrow> unit outcome \<times> task_state" where
  "tick e next_timer count' w0 =
     (let k = ticks w0;
          w = log (Tick next_timer count') (w0\<lparr>ticks := k + 1\<rparr>)
      in if app_exit e k then (Returns (), w)
         else
           (case callback w of
              Some cb \<Rightarrow>
                (let w1 = suspend e (log Invoke w)
                 in case invoke e k of
                      None \<Rightarrow> (Returns (), w1)
                    | Some error \<Rightarrow>
                        if error = CancelledError then (Raises error, w1)
                        else if is_Exception error then (Returns (), log (HandleException error) w1)
                        else (Raises error, w1))
            | None \<Rightarrow>
                (let event = \<lparr>ev_timer = name w, ev_time = next_timer,
                              ev_count = count', ev_callback = callback w\<rparr>
                 in case target e k w of
                      Inl error \<Rightarrow> (Raises error, w)
                    | Inr t \<Rightarrow> (Returns (), log (PostMessage t event) w))))"

subsection \<open>The scheduling loop\<close>

record vars =
  start :: real
  count :: int

text \<open>How one pass through the body of the \<open>while\<close> loop ends.\<close>

datatype flow = Continue vars | Break | Raised exn | Waiting

text \<open>The part of the body after the second gate wait: the reset check and the dispatch.\<close>

definition after_wait :: "env \<Rightarrow> real \<Rightarrow> vars \<Rightarrow> task_state \<Rightarrow> flow \<times> task_state" where
  "after_wait e next_timer v w =
     (if reset w then
        (let (t, w1) = get_time e w
         in (Continue (v\<lparr>start := t, count := 0\<rparr>), w1\<lparr>reset := False\<rparr>))
      else
        (case tick e next_timer (count v) w of
           (Raises error, w1) \<Rightarrow> if error = EventTargetGone then (Break, w1) else (Raised error, w1)
         | (Suspended, w1) \<Rightarrow> (Waiting, w1)
         | (Returns _, w1) \<Rightarrow> (Continue v, w1)))"

text \<open>
  The body of the \<open>while\<close> loop, with exact arithmetic: no operation on the times
  rounds. \<open>body_double\<close> below is the same body with the arithmetic of the interpreter.
\<close>

definition body :: "env \<Rightarrow> vars \<Rightarrow> task_state \<Rightarrow> flow \<times> task_state" where
  "body e v w =
     (let next_timer = start v + real_of_int (count v + 1) * interval w;
          (now, w1) = get_time e w
      in if skip w \<and> next_timer < now then
           (if interval w = 0 then (Raised ZeroDivisionError, w1)
            else (Continue (v\<lparr>count := py_int ((now - start v) / interval w + 1)\<rparr>), w1))
         else
           (let (now, w2) = get_time e w1;
                wait_time = max 0 (next_timer - now)
            in case sleep e wait_time w2 of
                 (Raises error, w3) \<Rightarrow> (Raised error, w3)
               | (Suspended, w3) \<Rightarrow> (Waiting, w3)
               | (Returns _, w3) \<Rightarrow>
                   (let v1 = v\<lparr>count := count v + 1\<rparr>
                    in case wait e w3 of
                         (Raises error, w4) \<Rightarrow> (Raised error, w4)
                       | (Suspended, w4) \<Rightarrow> (Waiting, w4)
                       | (Returns _, w4) \<Rightarrow> after_wait e next_timer v1 w4)))"

text \<open>The loop condition \<open>_repeat is None or count <= _repeat\<close>.\<close>

definition loop_cond :: "task_state \<Rightarrow> vars \<Rightarrow> bool" where
  "loop_cond w v = (case repeat w of None \<Rightarrow> True | Some r \<Rightarrow> count v \<le> r)"

text \<open>
  The \<open>while\<close> loop, with fuel: one unit for each pass through the body. \<open>None\<close> means
  that the fuel did not suffice.
\<close>

fun run_loop :: "nat \<Rightarrow> env \<Rightarrow> vars \<Rightarrow> task_state \<Rightarrow> (unit outcome \<times> task_state) option" where
  "run_loop fuel e v w =
     (if \<not> loop_cond w v then Some (Returns (), w)
      else case fuel of
             0 \<Rightarrow> None
           | Suc fuel' \<Rightarrow>
               (case body e v w of
                  (Continue v1, w1) \<Rightarrow> run_loop fuel' e v1 w1
                | (Break, w1) \<Rightarrow> Some (Returns (), w1)
                | (Raised error, w1) \<Rightarrow> Some (Raises error, w1)
                | (Waiting, w1) \<Rightarrow> Some (Suspended, w1)))"

declare run_loop.simps [simp del]

text \<open>\<open>_run\<close>.\<close>

definition run :: "nat \<Rightarrow> env \<Rightarrow> task_state \<Rightarrow> (unit outcome \<times> task_state) option" where
  "run fuel e w0 =
     (case wait e (active_event w0) of
        (Raises error, w) \<Rightarrow> Some (Raises error, w)
      | (Suspended, w) \<Rightarrow> Some (Suspended, w)
      | (Returns _, w) \<Rightarrow>
          (let (start', w1) = get_time e w
           in run_loop fuel e \<lparr>start = start', count = 0\<rparr> w1))"

text \<open>\<open>_run_timer\<close>: a cancellation ends the task without an error.\<close>

definition run_timer :: "nat \<Rightarrow> env \<Rightarrow> task_state \<Rightarrow> (unit outcome \<times> task_state) option" where
  "run_timer fuel e w =
     (case run fuel e w of
        None \<Rightarrow> None
      | Some (Raises error, w1) \<Rightarrow>
          if error = CancelledError then Some (Returns (), w1) else Some (Raises error, w1)
      | Some (r, w1) \<Rightarrow> Some (r, w1))"

text \<open>
  A timer placed in its task, right after \<open>_start\<close>: nothing has happened yet.
\<close>

definition spawn :: "timer \<Rightarrow> task_state" where
  "spawn t = start_task (timer.extend t
     \<lparr>must_cancel = False, time_calls = 0, suspensions = 0, ticks = 0, trace = []\<rparr>)"

text \<open>The ticks that were dispatched, the callback invocations and the posted events of a trace.\<close>

fun dispatched :: "action list \<Rightarrow> (real \<times> int) list" where
  "dispatched [] = []"
| "dispatched (Tick t c # as) = (t, c) # dispatched as"
| "dispatched (_ # as) = dispatched as"

fun is_post :: "action \<Rightarrow> bool" where
  "is_post (PostMessage _ _) = True"
| "is_post _ = False"

fun deliveries :: "action list \<Rightarrow> nat" where
  "deliveries [] = 0"
| "deliveries (Invoke # as) = Suc (deliveries as)"
| "deliveries (PostMessage _ _ # as) = Suc (deliveries as)"
| "deliveries (_ # as) = deliveries as"

section \<open>Double precision\<close>

text \<open>
  The floats of \<open>_run\<close> are IEEE 754 doubles. A finite double is the real number it
  denotes; an operation computes the exact result and rounds it to the nearest double,
  ties to the even significand, and gives an infinity when the rounded result is beyond
  the largest double. (The sign of a zero is not represented: no operation of \<open>_run\<close>
  observes it.)
\<close>

definition pow2 :: "int \<Rightarrow> real" where
  "pow2 k = (if 0 \<le> k then 2 ^ nat k else 1 / 2 ^ nat (- k))"

text \<open>
  The exponent of the binade of a positive number, \<open>2 ^ k \<le> x < 2 ^ (k + 1)\<close>, found by
  a search from 0 and kept within the exponent range of the doubles (the subnormal numbers
  share the exponent -1022).
\<close>

function exp_down :: "real \<Rightarrow> int \<Rightarrow> int" where
  "exp_down x k = (if x < pow2 k \<and> - 1022 < k then exp_down x (k - 1) else k)"
  by pat_completeness auto
termination
  by (relation "measure (\<lambda>(x, k). nat (k + 1022))") auto

function exp_up :: "real \<Rightarrow> int \<Rightarrow> int" where
  "exp_up x k = (if pow2 (k + 1) \<le> x \<and> k < 1023 then exp_up x (k + 1) else k)"
  by pat_completeness auto
termination
  by (relation "measure (\<lambda>(x, k). nat (1023 - k))") auto

declare exp_down.simps [simp del] exp_up.simps [simp del]

definition exponent :: "real \<Rightarrow> int" where
  "exponent x = (if \<bar>x\<bar> < 1 then exp_down \<bar>x\<bar> 0 else exp_up \<bar>x\<bar> 0)"

definition round_half_even :: "real \<Rightarrow> int" where
  "round_half_even y =
     (let f = \<lfloor>y\<rfloor>; r = y - real_of_int f
      in if r < 1 / 2 then f else if 1 / 2 < r then f + 1 else if even f then f else f + 1)"

datatype double = Finite real | PosInf | NegInf

definition max_double :: real where
  "max_double = (2 - pow2 (- 52)) * pow2 1023"

definition round_double :: "real \<Rightarrow> double" where
  "round_double x =
     (if x = 0 then Finite 0
      else
        (let ulp = pow2 (exponent x - 52);
             r = real_of_int (round_half_even (x / ulp)) * ulp
         in if max_double < r then PosInf
            else if r < - max_double then NegInf
            else Finite r))"

text \<open>
  The operations of \<open>_run\<close>. In each of them the second operand is a finite double (a time
  read from the clock, the anchor, the interval or a constant), so that no operation can
  produce a NaN.
\<close>

fun add_d :: "double \<Rightarrow> real \<Rightarrow> double" where
  "add_d (Finite a) b = round_double (a + b)"
| "add_d PosInf b = PosInf"
| "add_d NegInf b = NegInf"

fun sub_d :: "double \<Rightarrow> real \<Rightarrow> double" where
  "sub_d (Finite a) b = round_double (a - b)"
| "sub_d PosInf b = PosInf"
| "sub_d NegInf b = NegInf"

text \<open>Division by a divisor that is not zero (\<open>_run\<close> tests for zero first).\<close>

fun div_d :: "double \<Rightarrow> real \<Rightarrow> double" where
  "div_d (Finite a) b = round_double (a / b)"
| "div_d PosInf b = (if 0 < b then PosInf else NegInf)"
| "div_d NegInf b = (if 0 < b then NegInf else PosInf)"

definition mul_d :: "real \<Rightarrow> real \<Rightarrow> double" where
  "mul_d a b = round_double (a * b)"

fun less_d :: "double \<Rightarrow> real \<Rightarrow> bool" where
  "less_d (Finite a) b = (a < b)"
| "less_d PosInf b = False"
| "less_d NegInf b = True"

text \<open>\<open>max(0, x)\<close>.\<close>

fun max0_d :: "double \<Rightarrow> double" where
  "max0_d (Finite a) = Finite (max 0 a)"
| "max0_d PosInf = PosInf"
| "max0_d NegInf = Finite 0"

text \<open>
  The conversion of a Python integer to a float, as in \<open>(count + 1) * _interval\<close>: rounded
  like every operation, and an \<open>OverflowError\<close> for an integer beyond the doubles.
\<close>

definition float_of_int :: "int \<Rightarrow> exn + real" where
  "float_of_int n = (case round_double (real_of_int n) of
                       Finite r \<Rightarrow> Inr r
                     | _ \<Rightarrow> Inl OverflowError)"

text \<open>\<open>int(x)\<close>: truncation, and an \<open>OverflowError\<close> for an infinity.\<close>

fun int_of_double :: "double \<Rightarrow> exn + int" where
  "int_of_double (Finite a) = Inr (py_int a)"
| "int_of_double _ = Inl OverflowError"

text \<open>Line 160, \<open>start + ((count + 1) * _interval)\<close>.\<close>

definition next_timer_double :: "real \<Rightarrow> int \<Rightarrow> real \<Rightarrow> exn + double" where
  "next_timer_double start' count' interval' =
     (case float_of_int (count' + 1) of
        Inl error \<Rightarrow> Inl error
      | Inr n \<Rightarrow> Inr (add_d (mul_d n interval') start'))"

text \<open>Line 163, \<open>int((now - start) / _interval + 1)\<close>.\<close>

definition recount_double :: "real \<Rightarrow> real \<Rightarrow> real \<Rightarrow> exn + int" where
  "recount_double now start' interval' =
     (if interval' = 0 then Inl ZeroDivisionError
      else int_of_double (add_d (div_d (sub_d (Finite now) start') interval') 1))"

text \<open>
  The body of the \<open>while\<close> loop with the arithmetic of lines 160 to 166 in doubles. Where
  \<open>body\<close> computes with exact reals, this computes as the interpreter does. The trace holds
  finite times only: a pass that would sleep for an infinite time, or dispatch a tick
  with an infinite fire time (which takes a fire time beyond the largest double), has no
  result here (\<open>None\<close>).
\<close>

definition sleep_and_dispatch ::
  "env \<Rightarrow> real \<Rightarrow> real \<Rightarrow> vars \<Rightarrow> task_state \<Rightarrow> flow \<times> task_state" where
  "sleep_and_dispatch e next_timer wait_time v w2 =
     (case sleep e wait_time w2 of
        (Raises error, w3) \<Rightarrow> (Raised error, w3)
      | (Suspended, w3) \<Rightarrow> (Waiting, w3)
      | (Returns _, w3) \<Rightarrow>
          (let v1 = v\<lparr>count := count v + 1\<rparr>
           in case wait e w3 of
                (Raises error, w4) \<Rightarrow> (Raised error, w4)
              | (Suspended, w4) \<Rightarrow> (Waiting, w4)
              | (Returns _, w4) \<Rightarrow> after_wait e next_timer v1 w4))"

definition body_double :: "env \<Rightarrow> vars \<Rightarrow> task_state \<Rightarrow> (flow \<times> task_state) option" where
  "body_double e v w =
     (case next_timer_double (start v) (count v) (interval w) of
        Inl error \<Rightarrow> Some (Raised error, w)
      | Inr next_timer \<Rightarrow>
          (let (now, w1) = get_time e w
           in if skip w \<and> less_d next_timer now then
                (case recount_double now (start v) (interval w) of
                   Inl error \<Rightarrow> Some (Raised error, w1)
                 | Inr c \<Rightarrow> Some (Continue (v\<lparr>count := c\<rparr>), w1))
              else
                (let (now, w2) = get_time e w1
                 in case (next_timer, max0_d (sub_d next_timer now)) of
                      (Finite nt, Finite wait_time) \<Rightarrow> Some (sleep_and_dispatch e nt wait_time v w2)
                    | _ \<Rightarrow> None)))"

text \<open>
  The \<open>while\<close> loop over \<open>body_double\<close>. \<open>None\<close>: the fuel did not suffice, or a pass
  has no result.
\<close>

fun run_loop_double ::
  "nat \<Rightarrow> env \<Rightarrow> vars \<Rightarrow> task_state \<Rightarrow> (unit outcome \<times> task_state) option" where
  "run_loop_double fuel e v w =
     (if \<not> loop_cond w v then Some (Returns (), w)
      else case fuel of
             0 \<Rightarrow> None
           | Suc fuel' \<Rightarrow>
               (case body_double e v w of
                  None \<Rightarrow> None
                | Some (Continue v1, w1) \<Rightarrow> run_loop_double fuel' e v1 w1
                | Some (Break, w1) \<Rightarrow> Some (Returns (), w1)
                | Some (Raised error, w1) \<Rightarrow> Some (Raises error, w1)
                | Some (Waiting, w1) \<Rightarrow> Some (Suspended, w1)))"

declare run_loop_double.simps [simp del]

section \<open>Scenarios\<close>

text \<open>
  Concrete timers and environments on which the theorems below are exercised. The timers
  are built by the constructor; \<open>calm\<close> is an environment in which the clock stands at 0,
  the host makes no calls, the application is not exiting, the target is alive and the
  callback returns.
\<close>

definition app :: event_target where
  "app = \<lparr>obj_id = 7, obj_repr = ''App()''\<rparr>"

definition posting_timer :: "int option \<Rightarrow> bool \<Rightarrow> bool \<Rightarrow> timer" where
  "posting_timer repeat' skip' pause' = snd (init Timer app 1 None None repeat' skip' pause')"

definition callback_timer :: "int option \<Rightarrow> bool \<Rightarrow> bool \<Rightarrow> timer" where
  "callback_timer repeat' skip' pause' =
     snd (init Timer app 1 None (Some (Callback 0)) repeat' skip' pause')"

definition calm :: env where
  "calm = \<lparr>clock = (\<lambda>k. 0), host_calls = (\<lambda>k. []), app_exit = (\<lambda>k. False),
           alive = (\<lambda>k. True), invoke = (\<lambda>k. None)\<rparr>"

text \<open>The host calls \<open>pause\<close> while the callback of the first tick runs, and never resumes.\<close>

definition pause_in_callback :: env where
  "pause_in_callback =
     calm\<lparr>clock := (\<lambda>k. if k < 3 then 0 else 1),
          host_calls := (\<lambda>k. if k = 1 then [Pause] else [])\<rparr>"

text \<open>
  The first tick is dispatched on time at 1; the loop then comes back late, at 3.5, when
  the fire times 2 and 3 have passed and the fire time 4 has not.
\<close>

definition late :: env where
  "late = calm\<lparr>clock := (\<lambda>k. if k < 3 then 0 else 7 / 2)\<rparr>"

text \<open>The host resumes the timer during the first suspension, and the clock reads 5 from then on.\<close>

definition resumed_at_5 :: env where
  "resumed_at_5 = calm\<lparr>clock := (\<lambda>k. 5), host_calls := (\<lambda>k. if k = 0 then [Resume] else [])\<rparr>"

text \<open>The state of a task after a first pass without incident, at the dispatch of tick 1.\<close>

definition at_first_dispatch :: "timer \<Rightarrow> task_state" where
  "at_first_dispatch t =
     (active_event (spawn t))\<lparr>time_calls := 2, suspensions := 1,
        trace := [GetTime 0, GetTime 0, Sleep 1, GateWait False]\<rparr>"

section \<open>Default names\<close>

lemma init_class_unchanged: "fst (init cls tgt iv nm cb rp sk pz) = cls"
  by (simp add: init_def Let_def)

lemma str_int_1: "str_int 1 = ''1''"
  by (simp add: str_int_def str_nat.simps digit_char_def)

lemma construct_unnamed_class: "fst (construct_unnamed cls xs) = cls"
proof (induction xs arbitrary: cls)
  case Nil
  show ?case by simp
next
  case (Cons x xs)
  obtain tgt iv where x: "x = (tgt, iv)" by (cases x)
  obtain c1 t where i: "init cls tgt iv None None None True False = (c1, t)" by fastforce
  have c1: "c1 = cls" using init_class_unchanged [of cls tgt iv None None None True False] i by simp
  obtain c2 ts where r: "construct_unnamed c1 xs = (c2, ts)" by fastforce
  have "c2 = c1" using Cons.IH [of c1] r by simp
  then show ?case using x i r c1 by simp
qed

text \<open>
  The constructor never changes the class attribute, so every timer constructed without a
  name, however many were constructed before it, is called \<open>Timer#1\<close>.
\<close>

lemma unnamed_timers_all_Timer1:
  "t \<in> set (snd (construct_unnamed Timer xs)) \<Longrightarrow> name t = ''Timer#1''"
proof (induction xs arbitrary: t)
  case Nil
  then show ?case by simp
next
  case (Cons x xs)
  obtain tgt iv where x: "x = (tgt, iv)" by (cases x)
  have cls: "fst (init Timer tgt iv None None None True False) = Timer"
    by (rule init_class_unchanged)
  show ?case using Cons.prems Cons.IH cls
    by (auto simp: x Let_def str_int_1 split: prod.splits simp: init_def getattr_timer_count_def Timer_def)
qed

text \<open>
  C1. The claim: two timers constructed without a name receive distinct generated names.
  The code at two such constructions in a row: both timers are named \<open>Timer#1\<close>, each
  instance holds its own \<open>_timer_count = 2\<close>, and the class attribute is still 1.
\<close>

theorem C1_unnamed_timers_share_name:
  "construct_unnamed Timer
      [(\<lparr>obj_id = 0, obj_repr = ''App()''\<rparr>, 1), (\<lparr>obj_id = 0, obj_repr = ''App()''\<rparr>, 2)]
   = (\<lparr>cls_timer_count = 1\<rparr>,
      [\<lparr>target_repr = ''App()'', weak_target = 0, interval = 1, name = ''Timer#1'',
        timer_count = Some 2, callback = None, repeat = None, skip = True, task = False,
        reset = False, original_pause = False, active = None\<rparr>,
       \<lparr>target_repr = ''App()'', weak_target = 0, interval = 2, name = ''Timer#1'',
        timer_count = Some 2, callback = None, repeat = None, skip = True, task = False,
        reset = False, original_pause = False, active = None\<rparr>])"
  by (simp add: init_def Let_def getattr_timer_count_def Timer_def str_int_1)

section \<open>Facts about the model\<close>

lemmas scen = app_def posting_timer_def callback_timer_def calm_def init_def Timer_def
  getattr_timer_count_def str_int_1 spawn_def start_task_def timer.defs task_state.defs

lemmas ops = run_timer_def run_def wait_def active_event_def log_def get_time_def run_loop.simps
  loop_cond_def body_def sleep_def suspend_def after_wait_def tick_def target_def py_int_def
  pause_def resume_def reset_timer_def stop_def Let_def

text \<open>Truncation and floor agree on the non-negative reals, and truncation is never below the floor.\<close>

lemma py_int_nonneg: "0 \<le> x \<Longrightarrow> py_int x = \<lfloor>x\<rfloor>"
  by (simp add: py_int_def)


lemma py_int_nonneg_ge: "0 \<le> x \<Longrightarrow> 0 \<le> py_int x"
  by (simp add: py_int_def)

text \<open>Updates of different fields commute; these equations bring them into the order of declaration.\<close>

lemma upd_order:
  fixes w :: task_state
  shows
    "task_update f_task (reset_update f_reset w) = reset_update f_reset (task_update f_task w)"
    and "task_update f_task (active_update f_active w) = active_update f_active (task_update f_task w)"
    and "task_update f_task (must_cancel_update f_must_cancel w) = must_cancel_update f_must_cancel (task_update f_task w)"
    and "task_update f_task (time_calls_update f_time_calls w) = time_calls_update f_time_calls (task_update f_task w)"
    and "task_update f_task (suspensions_update f_suspensions w) = suspensions_update f_suspensions (task_update f_task w)"
    and "task_update f_task (ticks_update f_ticks w) = ticks_update f_ticks (task_update f_task w)"
    and "task_update f_task (trace_update f_trace w) = trace_update f_trace (task_update f_task w)"
    and "reset_update f_reset (active_update f_active w) = active_update f_active (reset_update f_reset w)"
    and "reset_update f_reset (must_cancel_update f_must_cancel w) = must_cancel_update f_must_cancel (reset_update f_reset w)"
    and "reset_update f_reset (time_calls_update f_time_calls w) = time_calls_update f_time_calls (reset_update f_reset w)"
    and "reset_update f_reset (suspensions_update f_suspensions w) = suspensions_update f_suspensions (reset_update f_reset w)"
    and "reset_update f_reset (ticks_update f_ticks w) = ticks_update f_ticks (reset_update f_reset w)"
    and "reset_update f_reset (trace_update f_trace w) = trace_update f_trace (reset_update f_reset w)"
    and "active_update f_active (must_cancel_update f_must_cancel w) = must_cancel_update f_must_cancel (active_update f_active w)"
    and "active_update f_active (time_calls_update f_time_calls w) = time_calls_update f_time_calls (active_update f_active w)"
    and "active_update f_active (suspensions_update f_suspensions w) = suspensions_update f_suspensions (active_update f_active w)"
    and "active_update f_active (ticks_update f_ticks w) = ticks_update f_ticks (active_update f_active w)"
    and "active_update f_active (trace_update f_trace w) = trace_update f_trace (active_update f_active w)"
    and "must_cancel_update f_must_cancel (time_calls_update f_time_calls w) = time_calls_update f_time_calls (must_cancel_update f_must_cancel w)"
    and "must_cancel_update f_must_cancel (suspensions_update f_suspensions w) = suspensions_update f_suspensions (must_cancel_update f_must_cancel w)"
    and "must_cancel_update f_must_cancel (ticks_update f_ticks w) = ticks_update f_ticks (must_cancel_update f_must_cancel w)"
    and "must_cancel_update f_must_cancel (trace_update f_trace w) = trace_update f_trace (must_cancel_update f_must_cancel w)"
    and "time_calls_update f_time_calls (suspensions_update f_suspensions w) = suspensions_update f_suspensions (time_calls_update f_time_calls w)"
    and "time_calls_update f_time_calls (ticks_update f_ticks w) = ticks_update f_ticks (time_calls_update f_time_calls w)"
    and "time_calls_update f_time_calls (trace_update f_trace w) = trace_update f_trace (time_calls_update f_time_calls w)"
    and "suspensions_update f_suspensions (ticks_update f_ticks w) = ticks_update f_ticks (suspensions_update f_suspensions w)"
    and "suspensions_update f_suspensions (trace_update f_trace w) = trace_update f_trace (suspensions_update f_suspensions w)"
    and "ticks_update f_ticks (trace_update f_trace w) = trace_update f_trace (ticks_update f_ticks w)"
  by (cases w; simp)+

lemma run_loop_Suc:
  "loop_cond w v \<Longrightarrow> run_loop (Suc n) e v w =
     (case body e v w of
        (Continue v1, w1) \<Rightarrow> run_loop n e v1 w1
      | (Break, w1) \<Rightarrow> Some (Returns (), w1)
      | (Raised error, w1) \<Rightarrow> Some (Raises error, w1)
      | (Waiting, w1) \<Rightarrow> Some (Suspended, w1))"
  by (subst run_loop.simps) simp

lemma dispatched_append: "dispatched (xs @ ys) = dispatched xs @ dispatched ys"
  by (induction xs rule: dispatched.induct) simp_all

lemma dispatched_apply_call: "dispatched (trace (apply_call w c)) = dispatched (trace w)"
  by (cases c)
     (simp_all add: pause_def resume_def reset_timer_def stop_def active_event_def log_def
        dispatched_append split: option.splits)

lemma dispatched_foldl_apply_call:
  "dispatched (trace (foldl apply_call w cs)) = dispatched (trace w)"
  by (induction cs arbitrary: w) (simp_all add: dispatched_apply_call)

lemma dispatched_suspend: "dispatched (trace (suspend e w)) = dispatched (trace w)"
  by (simp add: suspend_def dispatched_foldl_apply_call)

lemma dispatched_tick:
  "dispatched (trace (snd (tick e nt c w))) = dispatched (trace w) @ [(nt, c)]"
  by (simp add: tick_def Let_def log_def target_def dispatched_append dispatched_suspend
        split: option.splits)

lemma deliveries_append: "deliveries (xs @ ys) = deliveries xs + deliveries ys"
  by (induction xs rule: deliveries.induct) simp_all

text \<open>A pass through the body that finds the next tick overdue, with skipping enabled.\<close>

lemma body_skip:
  assumes "skip w" and "interval w \<noteq> 0"
    and "start v + real_of_int (count v + 1) * interval w < clock e (time_calls w)"
  shows "body e v w =
           (Continue (v\<lparr>count := py_int ((clock e (time_calls w) - start v) / interval w + 1)\<rparr>),
            w\<lparr>time_calls := time_calls w + 1,
              trace := trace w @ [GetTime (clock e (time_calls w))]\<rparr>)"
  using assms by (simp add: body_def get_time_def log_def Let_def)

lemma overdue_quotient:
  fixes now s iv :: real and c :: int
  assumes "0 < iv" and "s + real_of_int (c + 1) * iv < now"
  shows "real_of_int (c + 1) < (now - s) / iv"
proof -
  have "real_of_int (c + 1) * iv < now - s" using assms(2) by simp
  then show ?thesis using assms(1) by (simp add: pos_less_divide_eq)
qed

text \<open>
  A pass that does not skip, during whose sleep the host makes no call, with the event
  set: it arrives at the reset check with the counter incremented.
\<close>

lemma quiet_pass:
  assumes "\<not> (skip w \<and> start v + real_of_int (count v + 1) * interval w < clock e (time_calls w))"
    and "host_calls e (suspensions w) = []"
    and "active w = Some True" and "\<not> must_cancel w"
  shows "body e v w =
           after_wait e (start v + real_of_int (count v + 1) * interval w)
             (v\<lparr>count := count v + 1\<rparr>)
             (w\<lparr>time_calls := time_calls w + 2, suspensions := suspensions w + 1,
                trace := trace w @
                  [GetTime (clock e (time_calls w)), GetTime (clock e (time_calls w + 1)),
                   Sleep (max 0 (start v + real_of_int (count v + 1) * interval w
                                 - clock e (time_calls w + 1))),
                   GateWait False]\<rparr>)"
  using assms
  by (auto simp: body_def get_time_def sleep_def suspend_def wait_def active_event_def log_def Let_def)

lemma after_wait_dispatch_state:
  "\<not> reset w \<Longrightarrow> snd (after_wait e nt v w) = snd (tick e nt (count v) w)"
  by (cases "tick e nt (count v) w") (simp add: after_wait_def split: outcome.splits)

text \<open>For a positive interval the counter never becomes negative.\<close>

lemma body_count_nonneg:
  assumes "0 < interval w" and "0 \<le> count v" and "body e v w = (Continue v', w')"
  shows "0 \<le> count v'"
proof (cases "skip w \<and> start v + real_of_int (count v + 1) * interval w < clock e (time_calls w)")
  case True
  then have q: "real_of_int (count v + 1) < (clock e (time_calls w) - start v) / interval w"
    using overdue_quotient [OF assms(1)] by blast
  have "0 \<le> (clock e (time_calls w) - start v) / interval w + 1" using q assms(2) by linarith
  then have "0 \<le> py_int ((clock e (time_calls w) - start v) / interval w + 1)"
    by (rule py_int_nonneg_ge)
  moreover have "v' = v\<lparr>count := py_int ((clock e (time_calls w) - start v) / interval w + 1)\<rparr>"
    using body_skip [of w v e] True assms(1,3) by simp
  ultimately show ?thesis by simp
next
  case False
  then show ?thesis using assms(2,3)
    by (auto simp: body_def after_wait_def get_time_def Let_def
          split: if_splits prod.splits outcome.splits)
qed

section \<open>Pausing\<close>

text \<open>
  C2. The claim: in every cycle the loop waits on the gate before computing the next fire
  time and sleeping, so that after \<open>pause()\<close> it blocks before computing and sleeping for
  the next tick. The code has one gate wait before the anchor is recorded and one in the
  body of the loop, after the sleep and the increment of the counter. Here the host pauses
  the timer while the callback of tick 1 runs: the loop reads the clock twice and sleeps a
  full second after the call of \<open>pause\<close>, and only then suspends on the gate.
\<close>

theorem C2_counterexample_sleeps_while_paused:
  "map_option (\<lambda>(res, w). (res, trace w))
     (run_timer 2 pause_in_callback (spawn (callback_timer None True False))) =
   Some (Suspended,
         [GateWait False, GetTime 0, GetTime 0, GetTime 0, Sleep 1, GateWait False,
          Tick 1 1, Invoke, Called Pause,
          GetTime 1, GetTime 1, Sleep 1, GateWait True])"
  by (simp add: scen ops str_int_1 pause_in_callback_def)

text \<open>The calls of the host during a suspension are recorded in the trace, in order.\<close>

lemma trace_apply_call: "trace (apply_call w c) = trace w @ [Called c]"
  by (cases c)
     (simp_all add: pause_def resume_def reset_timer_def stop_def active_event_def log_def
        split: option.splits)

lemma trace_foldl_apply_call: "trace (foldl apply_call w cs) = trace w @ map Called cs"
  by (induction cs arbitrary: w) (simp_all add: trace_apply_call)

text \<open>
  C2, as amended. Every pass that does not skip computes the fire time, reads the clock
  twice and sleeps, whatever the state of the gate; the gate is awaited after the sleep
  (and the increment of the counter). If the task is cancelled during the sleep the pass
  ends there. If the gate is open after the sleep the pass goes on to the reset check and
  the dispatch. If the gate is closed after the sleep (because \<open>pause()\<close> was called before
  the pass or during the sleep) the task suspends on it, before the reset check and the
  dispatch: a \<open>stop()\<close> during the wait ends the pass, a \<open>resume()\<close> or \<open>reset()\<close> lets it
  go on, and otherwise the pass stays suspended and has dispatched nothing.
\<close>

theorem C2_pause_blocks_before_dispatch:
  fixes e :: env and v :: vars and w :: task_state
  defines "nt \<equiv> start v + real_of_int (count v + 1) * interval w"
    and "now1 \<equiv> clock e (time_calls w)"
    and "now2 \<equiv> clock e (time_calls w + 1)"
  defines "w3 \<equiv> suspend e (log (Sleep (max 0 (nt - now2)))
                    (w\<lparr>time_calls := time_calls w + 2,
                       trace := trace w @ [GetTime now1, GetTime now2]\<rparr>))"
  defines "w4 \<equiv> suspend e (log (GateWait True) (active_event w3))"
  assumes "\<not> (skip w \<and> nt < now1)"
  shows "trace w3 = trace w @ [GetTime now1, GetTime now2, Sleep (max 0 (nt - now2))]
                      @ map Called (host_calls e (suspensions w))
       \<and> (must_cancel w3 \<longrightarrow>
            body e v w = (Raised CancelledError, w3\<lparr>must_cancel := False\<rparr>))
       \<and> (\<not> must_cancel w3 \<and> active (active_event w3) = Some True \<longrightarrow>
            body e v w =
              after_wait e nt (v\<lparr>count := count v + 1\<rparr>) (log (GateWait False) (active_event w3)))
       \<and> (\<not> must_cancel w3 \<and> active (active_event w3) \<noteq> Some True \<and> must_cancel w4 \<longrightarrow>
            body e v w = (Raised CancelledError, w4\<lparr>must_cancel := False\<rparr>))
       \<and> (\<not> must_cancel w3 \<and> active (active_event w3) \<noteq> Some True \<and> \<not> must_cancel w4
            \<and> list_ex sets_event (host_calls e (suspensions w3)) \<longrightarrow>
            body e v w = after_wait e nt (v\<lparr>count := count v + 1\<rparr>) w4)
       \<and> (\<not> must_cancel w3 \<and> active (active_event w3) \<noteq> Some True \<and> \<not> must_cancel w4
            \<and> \<not> list_ex sets_event (host_calls e (suspensions w3)) \<longrightarrow>
            body e v w = (Waiting, w4) \<and> dispatched (trace w4) = dispatched (trace w))"
proof -
  have tr: "trace w3 = trace w @ [GetTime now1, GetTime now2, Sleep (max 0 (nt - now2))]
                      @ map Called (host_calls e (suspensions w))"
    by (simp add: w3_def suspend_def log_def trace_foldl_apply_call)
  have d: "dispatched (trace w4) = dispatched (trace w)"
    by (simp add: w4_def w3_def dispatched_suspend log_def dispatched_append active_event_def
          split: option.splits)
  have ae: "suspensions (active_event x) = suspensions x" for x
    by (simp add: active_event_def split: option.splits)
  have b: "body e v w =
             (if must_cancel w3 then (Raised CancelledError, w3\<lparr>must_cancel := False\<rparr>)
              else if active (active_event w3) = Some True
                then after_wait e nt (v\<lparr>count := count v + 1\<rparr>)
                       (log (GateWait False) (active_event w3))
              else if must_cancel w4 then (Raised CancelledError, w4\<lparr>must_cancel := False\<rparr>)
              else if list_ex sets_event (host_calls e (suspensions w3))
                then after_wait e nt (v\<lparr>count := count v + 1\<rparr>) w4
              else (Waiting, w4))"
    using assms(6) unfolding w4_def w3_def nt_def now1_def now2_def
    by (auto simp: body_def get_time_def sleep_def wait_def log_def Let_def upd_order ae)
  show ?thesis using b tr d by simp
qed

text \<open>
  C2, as amended, at the first pass of a timer: paused during the sleep and left paused;
  paused during the sleep and resumed during the wait; left alone; paused before the pass.
\<close>

theorem C2_pause_blocks_before_dispatch_witness:
  "\<not> (skip (active_event (spawn (callback_timer None True False))) \<and> (0::real) + 1 < 0)
   \<and> active (active_event (spawn (callback_timer None True False))) = Some True
   \<and> body (calm\<lparr>host_calls := (\<lambda>k. if k = 0 then [Pause] else [])\<rparr>) \<lparr>start = 0, count = 0\<rparr>
        (active_event (spawn (callback_timer None True False)))
      = (Waiting,
         (active_event (spawn (callback_timer None True False)))
           \<lparr>active := Some False, time_calls := 2, suspensions := 2,
             trace := [GetTime 0, GetTime 0, Sleep 1, Called Pause, GateWait True]\<rparr>)
   \<and> body (calm\<lparr>host_calls := (\<lambda>k. if k = 0 then [Pause] else if k = 1 then [Resume] else [])\<rparr>)
        \<lparr>start = 0, count = 0\<rparr> (active_event (spawn (callback_timer None True False)))
      = after_wait (calm\<lparr>host_calls := (\<lambda>k. if k = 0 then [Pause] else if k = 1 then [Resume] else [])\<rparr>)
          1 \<lparr>start = 0, count = 1\<rparr>
          ((active_event (spawn (callback_timer None True False)))
             \<lparr>active := Some True, time_calls := 2, suspensions := 2,
               trace := [GetTime 0, GetTime 0, Sleep 1, Called Pause, GateWait True, Called Resume]\<rparr>)
   \<and> body calm \<lparr>start = 0, count = 0\<rparr> (active_event (spawn (callback_timer None True False)))
      = after_wait calm 1 \<lparr>start = 0, count = 1\<rparr>
          ((active_event (spawn (callback_timer None True False)))
             \<lparr>time_calls := 2, suspensions := 1,
               trace := [GetTime 0, GetTime 0, Sleep 1, GateWait False]\<rparr>)
   \<and> body calm \<lparr>start = 0, count = 0\<rparr> (pause (spawn (callback_timer None True False)))
      = (Waiting,
         (pause (spawn (callback_timer None True False)))
           \<lparr>time_calls := 2, suspensions := 2,
             trace := [GetTime 0, GetTime 0, Sleep 1, GateWait True]\<rparr>)"
  using C2_pause_blocks_before_dispatch [of "active_event (spawn (callback_timer None True False))" "\<lparr>start = 0, count = 0\<rparr>"
               "calm\<lparr>host_calls := (\<lambda>k. if k = 0 then [Pause] else [])\<rparr>"]
        C2_pause_blocks_before_dispatch [of "active_event (spawn (callback_timer None True False))" "\<lparr>start = 0, count = 0\<rparr>"
               "calm\<lparr>host_calls := (\<lambda>k. if k = 0 then [Pause] else if k = 1 then [Resume] else [])\<rparr>"]
        C2_pause_blocks_before_dispatch [of "active_event (spawn (callback_timer None True False))" "\<lparr>start = 0, count = 0\<rparr>" calm]
        C2_pause_blocks_before_dispatch [of "pause (spawn (callback_timer None True False))" "\<lparr>start = 0, count = 0\<rparr>" calm]
  by (simp add: scen ops upd_order)

text \<open>
  C10. For a timer constructed with \<open>pause=True\<close> whose gate has not been touched, \<open>_run\<close>
  suspends on the gate before it reads the clock: while the host does not resume it, no
  time is read and nothing is dispatched. When the host resumes it, the anchor is the
  first clock reading, taken after the wake-up, and the loop starts from it with the
  counter at 0, so the first fire time is one interval after the resume.
\<close>

theorem C10_anchor_after_first_resume:
  assumes "original_pause w" and "active w = None" and "\<not> must_cancel w"
  shows "(host_calls e (suspensions w) = [] \<longrightarrow>
            run fuel e w =
              Some (Suspended,
                    w\<lparr>active := Some False, suspensions := suspensions w + 1,
                      trace := trace w @ [GateWait True]\<rparr>))
       \<and> (host_calls e (suspensions w) = [Resume] \<longrightarrow>
            run fuel e w =
              run_loop fuel e \<lparr>start = clock e (time_calls w), count = 0\<rparr>
                (w\<lparr>active := Some True, time_calls := time_calls w + 1,
                   suspensions := suspensions w + 1,
                   trace := trace w @ [GateWait True, Called Resume, GetTime (clock e (time_calls w))]\<rparr>))"
  using assms
  by (simp add: run_def wait_def active_event_def suspend_def get_time_def log_def resume_def
        Let_def upd_order)

text \<open>C10 on a timer constructed paused: left alone, and resumed when the clock reads 5.\<close>

theorem C10_anchor_after_first_resume_witness:
  "original_pause (spawn (posting_timer (Some 0) True True))
   \<and> active (spawn (posting_timer (Some 0) True True)) = None
   \<and> \<not> must_cancel (spawn (posting_timer (Some 0) True True))
   \<and> host_calls calm (suspensions (spawn (posting_timer (Some 0) True True))) = []
   \<and> map_option (\<lambda>(res, w). (res, trace w, time_calls w, ticks w))
        (run 1 calm (spawn (posting_timer (Some 0) True True)))
      = Some (Suspended, [GateWait True], 0, 0)
   \<and> host_calls resumed_at_5 (suspensions (spawn (posting_timer (Some 0) True True))) = [Resume]
   \<and> run 1 resumed_at_5 (spawn (posting_timer (Some 0) True True))
      = run_loop 1 resumed_at_5 \<lparr>start = 5, count = 0\<rparr>
          ((spawn (posting_timer (Some 0) True True))
             \<lparr>active := Some True, time_calls := 1, suspensions := 1,
               trace := [GateWait True, Called Resume, GetTime 5]\<rparr>)
   \<and> map_option (\<lambda>(res, w). (res, dispatched (trace w)))
        (run 1 resumed_at_5 (spawn (posting_timer (Some 0) True True)))
      = Some (Returns (), [(6, 1)])"
  using C10_anchor_after_first_resume [of "spawn (posting_timer (Some 0) True True)" calm 1]
        C10_anchor_after_first_resume [of "spawn (posting_timer (Some 0) True True)" resumed_at_5 1]
  by (simp add: scen ops upd_order resumed_at_5_def)

section \<open>Skipping overdue ticks\<close>

text \<open>
  C3. The claim: with skipping enabled, when the fire times of ticks 2 and 3 have passed,
  those ticks are not dispatched and dispatch resumes at the first count whose fire time
  is not yet overdue. The code, for a timer with interval 1 anchored at 0 that comes back
  at 3.5 after tick 1: ticks 2 and 3 are not dispatched, and neither is tick 4, whose fire
  time 4 has not passed; the next tick dispatched is tick 5, at 5.
\<close>

theorem C3_skip_resumes_one_tick_late:
  "map_option (\<lambda>(res, w). (res, dispatched (trace w)))
     (run_timer 3 late (spawn (posting_timer (Some 4) True False))) =
   Some (Returns (), [(1, 1), (5, 5)])"
  by (simp add: scen ops str_int_1 late_def)

text \<open>
  The same in general: after a skip the counter holds the number of the first tick that is
  not overdue, and the next pass dispatches the tick after that one.
\<close>

lemma skip_passes_over_a_tick_not_yet_due:
  assumes "skip w" and "0 < interval w" and "0 \<le> count v"
    and "start v + real_of_int (count v + 1) * interval w < clock e (time_calls w)"
    and "body e v w = (Continue v', w')"
    and "\<not> (skip w' \<and> start v' + real_of_int (count v' + 1) * interval w' < clock e (time_calls w'))"
    and "host_calls e (suspensions w') = []" and "active w' = Some True"
    and "\<not> must_cancel w'" and "\<not> reset w'"
  shows "clock e (time_calls w) < start v + real_of_int (count v') * interval w
       \<and> dispatched (trace (snd (body e v' w'))) =
           dispatched (trace w) @ [(start v + real_of_int (count v' + 1) * interval w, count v' + 1)]"
proof -
  let ?now = "clock e (time_calls w)"
  let ?x = "(?now - start v) / interval w"
  have q: "real_of_int (count v + 1) < ?x" using overdue_quotient [OF assms(2,4)] .
  have "0 \<le> ?x + 1" using q assms(3) by linarith
  then have c: "py_int (?x + 1) = \<lfloor>?x\<rfloor> + 1" by (simp add: py_int_def)
  have b: "body e v w = (Continue (v\<lparr>count := \<lfloor>?x\<rfloor> + 1\<rparr>),
                         w\<lparr>time_calls := time_calls w + 1, trace := trace w @ [GetTime ?now]\<rparr>)"
    using body_skip [of w v e] assms(1,2,4) c by simp
  then have v': "v' = v\<lparr>count := \<lfloor>?x\<rfloor> + 1\<rparr>"
    and w': "w' = w\<lparr>time_calls := time_calls w + 1, trace := trace w @ [GetTime ?now]\<rparr>"
    using assms(5) by simp_all
  have lt: "?x < real_of_int (\<lfloor>?x\<rfloor> + 1)" by linarith
  have "?now - start v < real_of_int (\<lfloor>?x\<rfloor> + 1) * interval w"
    by (rule iffD1 [OF pos_divide_less_eq [OF assms(2)] lt])
  then have due: "?now < start v + real_of_int (count v') * interval w" using v' by simp
  have "body e v' w' =
          after_wait e (start v' + real_of_int (count v' + 1) * interval w')
            (v'\<lparr>count := count v' + 1\<rparr>)
            (w'\<lparr>time_calls := time_calls w' + 2, suspensions := suspensions w' + 1,
                trace := trace w' @
                  [GetTime (clock e (time_calls w')), GetTime (clock e (time_calls w' + 1)),
                   Sleep (max 0 (start v' + real_of_int (count v' + 1) * interval w'
                                 - clock e (time_calls w' + 1))),
                   GateWait False]\<rparr>)"
    using quiet_pass [OF assms(6,7,8,9)] .
  then have "dispatched (trace (snd (body e v' w'))) =
      dispatched (trace w') @ [(start v' + real_of_int (count v' + 1) * interval w', count v' + 1)]"
    using assms(10) by (simp add: after_wait_dispatch_state dispatched_tick dispatched_append)
  then show ?thesis using due v' w' by (simp add: dispatched_append)
qed

text \<open>The pass in doubles: evaluation, the loop, and agreement with \<open>body\<close> where nothing rounds.\<close>

lemmas dbl = pow2_def exponent_def exp_down.simps exp_up.simps round_half_even_def max_double_def
  round_double_def mul_d_def float_of_int_def next_timer_double_def recount_double_def
  sleep_and_dispatch_def body_double_def run_loop_double.simps

lemma run_loop_double_Suc:
  "loop_cond w v \<Longrightarrow> run_loop_double (Suc n) e v w =
     (case body_double e v w of
        None \<Rightarrow> None
      | Some (Continue v1, w1) \<Rightarrow> run_loop_double n e v1 w1
      | Some (Break, w1) \<Rightarrow> Some (Returns (), w1)
      | Some (Raised error, w1) \<Rightarrow> Some (Raises error, w1)
      | Some (Waiting, w1) \<Rightarrow> Some (Suspended, w1))"
  by (subst run_loop_double.simps) simp

lemma body_double_exact:
  fixes e :: env and v :: vars and w :: task_state
  defines "nt \<equiv> start v + real_of_int (count v + 1) * interval w"
    and "now \<equiv> clock e (time_calls w)"
    and "now2 \<equiv> clock e (time_calls w + 1)"
  assumes "float_of_int (count v + 1) = Inr (real_of_int (count v + 1))"
    and "mul_d (real_of_int (count v + 1)) (interval w) = Finite (real_of_int (count v + 1) * interval w)"
    and "add_d (Finite (real_of_int (count v + 1) * interval w)) (start v) = Finite nt"
    and "skip w \<and> nt < now \<and> interval w \<noteq> 0 \<longrightarrow>
           sub_d (Finite now) (start v) = Finite (now - start v)
         \<and> div_d (Finite (now - start v)) (interval w) = Finite ((now - start v) / interval w)
         \<and> add_d (Finite ((now - start v) / interval w)) 1 = Finite ((now - start v) / interval w + 1)"
    and "\<not> (skip w \<and> nt < now) \<longrightarrow> sub_d (Finite nt) now2 = Finite (nt - now2)"
  shows "body_double e v w = Some (body e v w)"
proof (cases "skip w \<and> nt < now")
  case True
  then show ?thesis using assms(4,5,6,7)
    by (simp add: body_double_def body_def next_timer_double_def recount_double_def get_time_def
          log_def Let_def nt_def now_def)
next
  case False
  then show ?thesis using assms(4,5,6,8)
    by (auto simp: body_double_def body_def next_timer_double_def sleep_and_dispatch_def
          get_time_def log_def Let_def nt_def now_def now2_def)
qed

text \<open>
  C4. The claim: when skipping is enabled and the next fire time is before the current
  time, the counter becomes \<open>floor((now - start) / interval) + 1\<close>. The code computes
  \<open>int((now - start) / _interval + 1)\<close> in doubles, and the sum can round up to the next
  integer. For anchor 0, interval 1.0 and the time 1.9999999999999998 (the double
  \<open>2 - 2^-52\<close>), with the counter at 0: the quotient is the time itself, the sum
  \<open>3 - 2^-52\<close> is not a double and rounds to 3.0, and the counter becomes 3, where
  \<open>floor((now - start) / interval) + 1\<close> is 2.
\<close>

theorem C4_counterexample_rounded_sum:
  "body_double (calm\<lparr>clock := (\<lambda>k. 2 - 1 / 2 ^ 52)\<rparr>) \<lparr>start = 0, count = 0\<rparr>
     (spawn (posting_timer None True False))
   = Some (Continue \<lparr>start = 0, count = 3\<rparr>,
           (spawn (posting_timer None True False))
             \<lparr>time_calls := 1, trace := [GetTime (2 - 1 / 2 ^ 52)]\<rparr>)
   \<and> \<lfloor>((2 - 1 / 2 ^ 52) - 0) / (1::real)\<rfloor> + 1 = 2"
  by (simp add: scen dbl get_time_def log_def py_int_def Let_def)

text \<open>
  C4, as amended. With skipping enabled and the next fire time, computed in doubles,
  strictly before the current time, the pass reads the clock once and evaluates
  \<open>int((now - start) / _interval + 1)\<close> in doubles: it sets the counter to that value and
  goes back to the head of the loop (or raises, for a zero interval or an infinite
  quotient), so it has neither slept nor dispatched, whatever the number of missed ticks;
  the loop goes on from the new counter. Where the subtraction, the division and the
  addition are exact, for a positive interval and a time not before the anchor, the new
  counter is \<open>floor((now - start) / interval) + 1\<close>.
\<close>

theorem C4_skip_recomputes_counter:
  fixes e :: env and v :: vars and w :: task_state
  defines "now \<equiv> clock e (time_calls w)"
  defines "w1 \<equiv> w\<lparr>time_calls := time_calls w + 1, trace := trace w @ [GetTime now]\<rparr>"
  assumes "skip w" and "next_timer_double (start v) (count v) (interval w) = Inr next_timer"
    and "less_d next_timer now" and "loop_cond w v"
  shows "body_double e v w =
           Some (case recount_double now (start v) (interval w) of
                   Inl error \<Rightarrow> (Raised error, w1)
                 | Inr c \<Rightarrow> (Continue (v\<lparr>count := c\<rparr>), w1))
       \<and> (recount_double now (start v) (interval w) = Inr c \<longrightarrow>
            run_loop_double (Suc n) e v w = run_loop_double n e (v\<lparr>count := c\<rparr>) w1)
       \<and> (0 < interval w \<and> start v \<le> now
            \<and> sub_d (Finite now) (start v) = Finite (now - start v)
            \<and> div_d (Finite (now - start v)) (interval w) = Finite ((now - start v) / interval w)
            \<and> add_d (Finite ((now - start v) / interval w)) 1 = Finite ((now - start v) / interval w + 1)
          \<longrightarrow> recount_double now (start v) (interval w) = Inr (\<lfloor>(now - start v) / interval w\<rfloor> + 1))"
proof -
  have b: "body_double e v w =
           Some (case recount_double now (start v) (interval w) of
                   Inl error \<Rightarrow> (Raised error, w1)
                 | Inr c \<Rightarrow> (Continue (v\<lparr>count := c\<rparr>), w1))"
    using assms(3,4,5)
    by (simp add: body_double_def get_time_def log_def Let_def now_def w1_def split: sum.splits)
  have r: "run_loop_double (Suc n) e v w = run_loop_double n e (v\<lparr>count := c\<rparr>) w1"
    if "recount_double now (start v) (interval w) = Inr c"
    using run_loop_double_Suc [OF assms(6), of n e] b that by simp
  have x: "recount_double now (start v) (interval w) = Inr (\<lfloor>(now - start v) / interval w\<rfloor> + 1)"
    if h: "0 < interval w" "start v \<le> now"
      "sub_d (Finite now) (start v) = Finite (now - start v)"
      "div_d (Finite (now - start v)) (interval w) = Finite ((now - start v) / interval w)"
      "add_d (Finite ((now - start v) / interval w)) 1 = Finite ((now - start v) / interval w + 1)"
  proof -
    have "0 \<le> (now - start v) / interval w" using h(1,2) by simp
    then have "0 \<le> (now - start v) / interval w + 1" by linarith
    then have "py_int ((now - start v) / interval w + 1) = \<lfloor>(now - start v) / interval w + 1\<rfloor>"
      by (rule py_int_nonneg)
    also have "\<dots> = \<lfloor>(now - start v) / interval w\<rfloor> + 1" by simp
    finally have "py_int ((now - start v) / interval w + 1) = \<lfloor>(now - start v) / interval w\<rfloor> + 1" .
    then show ?thesis using h by (simp add: recount_double_def)
  qed
  show ?thesis using b r x by blast
qed

text \<open>
  C4, as amended, at anchor 0, counter 1, interval 1 and time 3.5, where nothing rounds:
  the counter becomes 4, and the loop goes on to dispatch tick 5 and returns.
\<close>

theorem C4_skip_recomputes_counter_witness:
  "skip (spawn (posting_timer (Some 4) True False))
   \<and> next_timer_double 0 1 (interval (spawn (posting_timer (Some 4) True False))) = Inr (Finite 2)
   \<and> less_d (Finite 2) (7 / 2)
   \<and> loop_cond (spawn (posting_timer (Some 4) True False)) \<lparr>start = 0, count = 1\<rparr>
   \<and> body_double (calm\<lparr>clock := (\<lambda>k. 7 / 2)\<rparr>) \<lparr>start = 0, count = 1\<rparr>
        (spawn (posting_timer (Some 4) True False))
      = Some (Continue \<lparr>start = 0, count = 4\<rparr>,
              (spawn (posting_timer (Some 4) True False))
                \<lparr>time_calls := 1, trace := [GetTime (7 / 2)]\<rparr>)
   \<and> recount_double (7 / 2) 0 1 = Inr 4
   \<and> \<lfloor>(7 / 2 - 0) / (1::real)\<rfloor> + 1 = 4
   \<and> map_option (\<lambda>(res, w). (res, trace w))
        (run_loop_double (Suc 1) (calm\<lparr>clock := (\<lambda>k. 7 / 2)\<rparr>) \<lparr>start = 0, count = 1\<rparr>
           (spawn (posting_timer (Some 4) True False)))
      = Some (Returns (),
              [GetTime (7 / 2), GetTime (7 / 2), GetTime (7 / 2), Sleep (3 / 2), GateWait False,
               Tick 5 5,
               PostMessage 7 \<lparr>ev_timer = ''Timer#1'', ev_time = 5, ev_count = 5, ev_callback = None\<rparr>])
   \<and> run_loop_double (Suc 1) (calm\<lparr>clock := (\<lambda>k. 7 / 2)\<rparr>) \<lparr>start = 0, count = 1\<rparr>
           (spawn (posting_timer (Some 4) True False))
      = run_loop_double 1 (calm\<lparr>clock := (\<lambda>k. 7 / 2)\<rparr>) \<lparr>start = 0, count = 4\<rparr>
          ((spawn (posting_timer (Some 4) True False))
             \<lparr>time_calls := 1, trace := [GetTime (7 / 2)]\<rparr>)"
  using C4_skip_recomputes_counter [of "spawn (posting_timer (Some 4) True False)" "\<lparr>start = 0, count = 1\<rparr>" "Finite 2"
               "calm\<lparr>clock := (\<lambda>k. 7 / 2)\<rparr>" 4 "Suc 0"]
  by (simp add: scen ops dbl upd_order)



section \<open>Reset\<close>

text \<open>\<open>reset()\<close> opens the gate and leaves the request for the loop.\<close>

lemma reset_timer_requests:
  "reset (reset_timer w) \<and> active (reset_timer w) = Some True"
  by (simp add: reset_timer_def)



section \<open>The repeat bound\<close>

text \<open>
  A pass in the steady state: no skipping, the gate open, no reset or cancellation
  pending, a host that makes no calls, and a dispatch that succeeds.
\<close>

lemma body_steady:
  assumes quiet: "\<forall>k. host_calls e k = []" and noexit: "\<forall>k. \<not> app_exit e k"
    and cb_ok: "callback w \<noteq> None \<longrightarrow> (\<forall>k. invoke e k = None)"
    and tgt_ok: "callback w = None \<longrightarrow> (\<forall>k. alive e k)"
    and st: "active w = Some True" "\<not> reset w" "\<not> must_cancel w" "\<not> skip w"
  shows "\<exists>w'. body e v w = (Continue (v\<lparr>count := count v + 1\<rparr>), w')
            \<and> active w' = Some True \<and> \<not> reset w' \<and> \<not> must_cancel w' \<and> \<not> skip w'
            \<and> repeat w' = repeat w \<and> interval w' = interval w \<and> callback w' = callback w
            \<and> dispatched (trace w') =
                dispatched (trace w) @ [(start v + real_of_int (count v + 1) * interval w, count v + 1)]
            \<and> deliveries (trace w') = Suc (deliveries (trace w))"
proof -
  let ?nt = "start v + real_of_int (count v + 1) * interval w"
  let ?w = "w\<lparr>time_calls := time_calls w + 2, suspensions := suspensions w + 1,
                trace := trace w @
                  [GetTime (clock e (time_calls w)), GetTime (clock e (time_calls w + 1)),
                   Sleep (max 0 (?nt - clock e (time_calls w + 1))), GateWait False]\<rparr>"
  have b: "body e v w = after_wait e ?nt (v\<lparr>count := count v + 1\<rparr>) ?w"
    using quiet_pass [of w v e] st quiet by simp
  show ?thesis
  proof (cases "callback w")
    case None
    then show ?thesis using b st noexit tgt_ok
      by (simp add: after_wait_def tick_def target_def log_def Let_def
            dispatched_append deliveries_append)
  next
    case (Some cb)
    then show ?thesis using b st noexit cb_ok quiet
      by (simp add: after_wait_def tick_def suspend_def log_def Let_def
            dispatched_append deliveries_append)
  qed
qed

lemma run_loop_steady:
  assumes quiet: "\<forall>k. host_calls e k = []" and noexit: "\<forall>k. \<not> app_exit e k"
    and cb_ok: "callback w \<noteq> None \<longrightarrow> (\<forall>k. invoke e k = None)"
    and tgt_ok: "callback w = None \<longrightarrow> (\<forall>k. alive e k)"
    and st: "active w = Some True" "\<not> reset w" "\<not> must_cancel w" "\<not> skip w"
    and rp: "repeat w = Some r"
    and fuel: "nat (r + 1 - count v) \<le> fuel"
  shows "\<exists>w'. run_loop fuel e v w = Some (Returns (), w')
            \<and> dispatched (trace w') =
                dispatched (trace w) @
                map (\<lambda>c. (start v + real_of_int c * interval w, c)) [count v + 1..r + 1]
            \<and> deliveries (trace w') = deliveries (trace w) + nat (r + 1 - count v)"
  using cb_ok tgt_ok st rp fuel
proof (induction fuel arbitrary: v w)
  case 0
  then have "\<not> loop_cond w v" by (simp add: loop_cond_def)
  then have "run_loop 0 e v w = Some (Returns (), w)" by (simp add: run_loop.simps)
  moreover have "[count v + 1..r + 1] = []" using "0.prems" by simp
  moreover have "nat (r + 1 - count v) = 0" using "0.prems" by simp
  ultimately show ?case by simp
next
  case (Suc n)
  show ?case
  proof (cases "count v \<le> r")
    case False
    then have "\<not> loop_cond w v" using Suc.prems by (simp add: loop_cond_def)
    then have "run_loop (Suc n) e v w = Some (Returns (), w)" by (simp add: run_loop.simps)
    moreover have "[count v + 1..r + 1] = []" using False by simp
    moreover have "nat (r + 1 - count v) = 0" using False by simp
    ultimately show ?thesis by simp
  next
    case True
    then have lc: "loop_cond w v" using Suc.prems by (simp add: loop_cond_def)
    obtain w1 where w1: "body e v w = (Continue (v\<lparr>count := count v + 1\<rparr>), w1)"
      "active w1 = Some True" "\<not> reset w1" "\<not> must_cancel w1" "\<not> skip w1"
      "repeat w1 = repeat w" "interval w1 = interval w" "callback w1 = callback w"
      "dispatched (trace w1) =
         dispatched (trace w) @ [(start v + real_of_int (count v + 1) * interval w, count v + 1)]"
      "deliveries (trace w1) = Suc (deliveries (trace w))"
      using body_steady [OF quiet noexit Suc.prems(1,2,3,4,5,6), of v] by blast
    let ?v1 = "v\<lparr>count := count v + 1\<rparr>"
    have step: "run_loop (Suc n) e v w = run_loop n e ?v1 w1"
      using run_loop_Suc [OF lc, of n e] w1(1) by simp
    have f1: "nat (r + 1 - count ?v1) \<le> n" using Suc.prems(8) True by simp
    obtain w' where w': "run_loop n e ?v1 w1 = Some (Returns (), w')"
      "dispatched (trace w') =
         dispatched (trace w1) @
         map (\<lambda>c. (start ?v1 + real_of_int c * interval w1, c)) [count ?v1 + 1..r + 1]"
      "deliveries (trace w') = deliveries (trace w1) + nat (r + 1 - count ?v1)"
      using Suc.IH [of w1 ?v1] w1 Suc.prems f1 by auto
    have up: "[count v + 1..r + 1] = (count v + 1) # [count v + 1 + 1..r + 1]"
      using True by (simp add: upto_rec1)
    have n1: "deliveries (trace w') = deliveries (trace w) + nat (r + 1 - count v)"
      using w'(3) w1(10) True by simp
    show ?thesis using step w' w1 up n1 by simp
  qed
qed

text \<open>
  C7. A timer with \<open>repeat = r\<close> and \<open>skip = False\<close>, started with its gate open, left
  alone by the host, whose dispatches all succeed: with enough fuel (\<open>r + 1\<close> passes) the
  task returns without an error, the ticks dispatched are those with counts
  \<open>1, 2, ..., r + 1\<close>, each at the anchor plus count times the interval, and the callback
  is invoked (or the event posted) \<open>r + 1\<close> times.
\<close>

theorem C7_bounded_repeat:
  assumes "\<forall>k. host_calls e k = []" and "\<forall>k. \<not> app_exit e k"
    and "callback w \<noteq> None \<longrightarrow> (\<forall>k. invoke e k = None)"
    and "callback w = None \<longrightarrow> (\<forall>k. alive e k)"
    and "active (active_event w) = Some True" and "\<not> reset w" and "\<not> must_cancel w"
    and "\<not> skip w" and "repeat w = Some r" and "nat (r + 1) \<le> fuel"
  shows "map_option (\<lambda>(res, w'). (res, dispatched (trace w'), deliveries (trace w')))
           (run_timer fuel e w) =
         Some (Returns (),
               dispatched (trace w) @
                 map (\<lambda>c. (clock e (time_calls w) + real_of_int c * interval w, c)) [1..r + 1],
               deliveries (trace w) + nat (r + 1))"
proof -
  let ?w0 = "active_event w"
  let ?t = "clock e (time_calls w)"
  let ?w1 = "?w0\<lparr>time_calls := time_calls w + 1, trace := trace w @ [GateWait False, GetTime ?t]\<rparr>"
  have f: "callback ?w0 = callback w" "reset ?w0 = reset w" "must_cancel ?w0 = must_cancel w"
    "skip ?w0 = skip w" "repeat ?w0 = repeat w" "interval ?w0 = interval w"
    "trace ?w0 = trace w" "time_calls ?w0 = time_calls w" "active_event ?w0 = ?w0"
    by (simp_all add: active_event_def split: option.splits)
  have r: "run fuel e w = run_loop fuel e \<lparr>start = ?t, count = 0\<rparr> ?w1"
    using assms(5) f by (simp add: run_def wait_def get_time_def log_def Let_def upd_order)
  obtain w' where w': "run_loop fuel e \<lparr>start = ?t, count = 0\<rparr> ?w1 = Some (Returns (), w')"
    "dispatched (trace w') =
       dispatched (trace ?w1) @
       map (\<lambda>c. (start \<lparr>start = ?t, count = 0\<rparr> + real_of_int c * interval ?w1, c))
         [count \<lparr>start = ?t, count = 0\<rparr> + 1..r + 1]"
    "deliveries (trace w') = deliveries (trace ?w1) + nat (r + 1 - count \<lparr>start = ?t, count = 0\<rparr>)"
    using run_loop_steady [OF assms(1,2), of ?w1 r "\<lparr>start = ?t, count = 0\<rparr>" fuel] assms f
    by auto
  show ?thesis using r w' f
    by (simp add: run_timer_def dispatched_append deliveries_append)
qed

text \<open>C7 for \<open>interval = 1\<close>, \<open>repeat = 2\<close> and a callback: three invocations, counts 1, 2, 3.\<close>

theorem C7_bounded_repeat_witness:
  "(\<forall>k. host_calls calm k = []) \<and> (\<forall>k. \<not> app_exit calm k)
   \<and> (\<forall>k. invoke calm k = None)
   \<and> callback (spawn (callback_timer (Some 2) False False)) \<noteq> None
   \<and> active (active_event (spawn (callback_timer (Some 2) False False))) = Some True
   \<and> \<not> reset (spawn (callback_timer (Some 2) False False))
   \<and> \<not> must_cancel (spawn (callback_timer (Some 2) False False))
   \<and> \<not> skip (spawn (callback_timer (Some 2) False False))
   \<and> repeat (spawn (callback_timer (Some 2) False False)) = Some 2
   \<and> map_option (\<lambda>(res, w'). (res, dispatched (trace w'), deliveries (trace w')))
        (run_timer 3 calm (spawn (callback_timer (Some 2) False False)))
      = Some (Returns (), [(1, 1), (2, 2), (3, 3)], 3)"
  using C7_bounded_repeat [of calm "spawn (callback_timer (Some 2) False False)" 2 3]
  by (simp add: scen active_event_def upto_rec1)

section \<open>Dispatch\<close>

text \<open>
  C8. The claim: a cancellation raised by the callback is raised again out of the dispatch
  and ends the loop, and every other exception raised by the callback is caught, passed
  to the error handler of the host, and does not end the timer. \<open>_tick\<close> catches
  \<open>Exception\<close>: an exception that is not an instance of it (\<open>SystemExit\<close> from a callback
  that calls \<open>sys.exit()\<close>, \<open>KeyboardInterrupt\<close>) is not caught, is not passed to the
  handler, and ends the task with that exception.
\<close>

theorem C8_counterexample_system_exit:
  "map_option (\<lambda>(res, w). (res, trace w))
     (run_timer 1 (calm\<lparr>invoke := (\<lambda>k. Some (SystemSignal 0))\<rparr>)
        (spawn (callback_timer None True False))) =
   Some (Raises (SystemSignal 0),
         [GateWait False, GetTime 0, GetTime 0, GetTime 0, Sleep 1, GateWait False,
          Tick 1 1, Invoke])"
  by (simp add: scen ops)

text \<open>
  C8, as amended. A tick of a timer with a callback, in a pass that reaches the dispatch.
  When the callback raises \<open>CancelledError\<close>, \<open>_tick\<close> raises it, the loop does not catch
  it and ends with it. When the callback raises any other instance of \<open>Exception\<close>,
  \<open>_tick\<close> passes it to \<open>app._handle_exception\<close> and returns, and the loop goes on with
  the next pass, with the same anchor and counter as after a callback that returned. Any
  other exception leaves \<open>_tick\<close> and the loop as the cancellation does.
\<close>

theorem C8_callback_exceptions:
  assumes "callback w = Some cb" and "\<not> app_exit e (ticks w)" and "\<not> reset w"
    and "loop_cond w0 v0" and "body e v0 w0 = after_wait e nt v w"
  shows "(invoke e (ticks w) = Some CancelledError \<longrightarrow>
            fst (tick e nt (count v) w) = Raises CancelledError
          \<and> fst (after_wait e nt v w) = Raised CancelledError
          \<and> run_loop (Suc n) e v0 w0 = Some (Raises CancelledError, snd (tick e nt (count v) w)))
       \<and> (invoke e (ticks w) = Some error \<and> error \<noteq> CancelledError \<and> is_Exception error \<longrightarrow>
            tick e nt (count v) w =
              (Returns (),
               log (HandleException error)
                 (suspend e (log Invoke (log (Tick nt (count v)) (w\<lparr>ticks := ticks w + 1\<rparr>)))))
          \<and> fst (after_wait e nt v w) = Continue v
          \<and> run_loop (Suc n) e v0 w0 = run_loop n e v (snd (tick e nt (count v) w)))
       \<and> (invoke e (ticks w) = Some error \<and> error \<noteq> CancelledError \<and> \<not> is_Exception error \<longrightarrow>
            tick e nt (count v) w =
              (Raises error,
               suspend e (log Invoke (log (Tick nt (count v)) (w\<lparr>ticks := ticks w + 1\<rparr>))))
          \<and> run_loop (Suc n) e v0 w0 = Some (Raises error, snd (tick e nt (count v) w)))"
proof -
  define w1 where "w1 = snd (tick e nt (count v) w)"
  have c: "tick e nt (count v) w = (Raises CancelledError, w1)"
    if "invoke e (ticks w) = Some CancelledError"
    unfolding w1_def using that assms(1,2) by (simp add: tick_def Let_def log_def)
  have c2: "after_wait e nt v w = (Raised CancelledError, w1)"
    if "invoke e (ticks w) = Some CancelledError"
    using c [OF that] assms(3) by (simp add: after_wait_def)
  have o: "tick e nt (count v) w =
              (Returns (),
               log (HandleException error)
                 (suspend e (log Invoke (log (Tick nt (count v)) (w\<lparr>ticks := ticks w + 1\<rparr>)))))"
    if "invoke e (ticks w) = Some error" "error \<noteq> CancelledError" "is_Exception error"
    using that assms(1,2) by (simp add: tick_def Let_def log_def)
  have o2: "after_wait e nt v w = (Continue v, w1)"
    if "invoke e (ticks w) = Some error" "error \<noteq> CancelledError" "is_Exception error"
    unfolding w1_def using o [OF that] assms(3) by (simp add: after_wait_def)
  have s: "tick e nt (count v) w =
              (Raises error,
               suspend e (log Invoke (log (Tick nt (count v)) (w\<lparr>ticks := ticks w + 1\<rparr>))))"
    if "invoke e (ticks w) = Some error" "error \<noteq> CancelledError" "\<not> is_Exception error"
    using that assms(1,2) by (simp add: tick_def Let_def log_def)
  have ne: "error \<noteq> EventTargetGone" if "\<not> is_Exception error"
    using that by (cases error) simp_all
  have s2: "after_wait e nt v w = (Raised error, w1)"
    if "invoke e (ticks w) = Some error" "error \<noteq> CancelledError" "\<not> is_Exception error"
    unfolding w1_def using s [OF that] ne [OF that(3)] assms(3) by (simp add: after_wait_def)
  have l1: "run_loop (Suc n) e v0 w0 = Some (Raises CancelledError, w1)"
    if "invoke e (ticks w) = Some CancelledError"
    using run_loop_Suc [OF assms(4), of n e] assms(5) c2 [OF that] by simp
  have l2: "run_loop (Suc n) e v0 w0 = run_loop n e v w1"
    if "invoke e (ticks w) = Some error" "error \<noteq> CancelledError" "is_Exception error"
    using run_loop_Suc [OF assms(4), of n e] assms(5) o2 [OF that] by simp
  have l3: "run_loop (Suc n) e v0 w0 = Some (Raises error, w1)"
    if "invoke e (ticks w) = Some error" "error \<noteq> CancelledError" "\<not> is_Exception error"
    using run_loop_Suc [OF assms(4), of n e] assms(5) s2 [OF that] by simp
  show ?thesis
    using c c2 o o2 s l1 l2 l3 unfolding w1_def [symmetric] by simp
qed

text \<open>C8, as amended, at the first tick of a timer: a callback that is cancelled, and one that fails.\<close>

theorem C8_callback_exceptions_witness:
  "callback (at_first_dispatch (callback_timer None True False)) = Some (Callback 0)
   \<and> \<not> app_exit calm (ticks (at_first_dispatch (callback_timer None True False)))
   \<and> \<not> reset (at_first_dispatch (callback_timer None True False))
   \<and> loop_cond (active_event (spawn (callback_timer None True False))) \<lparr>start = 0, count = 0\<rparr>
   \<and> body (calm\<lparr>invoke := (\<lambda>k. Some CancelledError)\<rparr>) \<lparr>start = 0, count = 0\<rparr>
        (active_event (spawn (callback_timer None True False)))
      = after_wait (calm\<lparr>invoke := (\<lambda>k. Some CancelledError)\<rparr>) 1 \<lparr>start = 0, count = 1\<rparr>
          (at_first_dispatch (callback_timer None True False))
   \<and> fst (tick (calm\<lparr>invoke := (\<lambda>k. Some CancelledError)\<rparr>) 1 1
             (at_first_dispatch (callback_timer None True False))) = Raises CancelledError
   \<and> map_option fst (run_loop (Suc 0) (calm\<lparr>invoke := (\<lambda>k. Some CancelledError)\<rparr>)
         \<lparr>start = 0, count = 0\<rparr> (active_event (spawn (callback_timer None True False))))
      = Some (Raises CancelledError)
   \<and> body (calm\<lparr>invoke := (\<lambda>k. Some (UserException 0))\<rparr>) \<lparr>start = 0, count = 0\<rparr>
        (active_event (spawn (callback_timer None True False)))
      = after_wait (calm\<lparr>invoke := (\<lambda>k. Some (UserException 0))\<rparr>) 1 \<lparr>start = 0, count = 1\<rparr>
          (at_first_dispatch (callback_timer None True False))
   \<and> is_Exception (UserException 0)
   \<and> map_option (\<lambda>w. trace w) (Some (snd (tick (calm\<lparr>invoke := (\<lambda>k. Some (UserException 0))\<rparr>) 1 1
             (at_first_dispatch (callback_timer None True False)))))
      = Some [GetTime 0, GetTime 0, Sleep 1, GateWait False, Tick 1 1, Invoke,
              HandleException (UserException 0)]
   \<and> fst (after_wait (calm\<lparr>invoke := (\<lambda>k. Some (UserException 0))\<rparr>) 1 \<lparr>start = 0, count = 1\<rparr>
             (at_first_dispatch (callback_timer None True False)))
      = Continue \<lparr>start = 0, count = 1\<rparr>"
  using C8_callback_exceptions [of "at_first_dispatch (callback_timer None True False)" "Callback 0"
               "calm\<lparr>invoke := (\<lambda>k. Some CancelledError)\<rparr>"
               "active_event (spawn (callback_timer None True False))" "\<lparr>start = 0, count = 0\<rparr>"
               1 "\<lparr>start = 0, count = 1\<rparr>" 0 CancelledError]
        C8_callback_exceptions [of "at_first_dispatch (callback_timer None True False)" "Callback 0"
               "calm\<lparr>invoke := (\<lambda>k. Some (UserException 0))\<rparr>"
               "active_event (spawn (callback_timer None True False))" "\<lparr>start = 0, count = 0\<rparr>"
               1 "\<lparr>start = 0, count = 1\<rparr>" 0 "UserException 0"]
  by (simp add: scen ops upd_order at_first_dispatch_def)

text \<open>
  C9. A tick of a timer without a callback whose target is gone (and whose application is
  not exiting), in a pass that reaches the dispatch: the property \<open>target\<close> raises
  \<open>EventTargetGone\<close>, \<open>_tick\<close> raises it without posting an event, the loop catches it
  and ends, and \<open>_run\<close> returns without an error.
\<close>

theorem C9_target_gone:
  assumes "callback w = None" and "\<not> alive e (ticks w)" and "\<not> app_exit e (ticks w)"
    and "\<not> reset w" and "loop_cond w0 v0" and "body e v0 w0 = after_wait e nt v w"
  shows "target e (ticks w) w = Inl EventTargetGone
       \<and> tick e nt (count v) w =
           (Raises EventTargetGone, log (Tick nt (count v)) (w\<lparr>ticks := ticks w + 1\<rparr>))
       \<and> after_wait e nt v w = (Break, log (Tick nt (count v)) (w\<lparr>ticks := ticks w + 1\<rparr>))
       \<and> run_loop (Suc n) e v0 w0 =
           Some (Returns (), log (Tick nt (count v)) (w\<lparr>ticks := ticks w + 1\<rparr>))
       \<and> filter is_post (trace (log (Tick nt (count v)) (w\<lparr>ticks := ticks w + 1\<rparr>)))
           = filter is_post (trace w)"
proof -
  have t: "target e (ticks w) w' = Inl EventTargetGone" for w'
    using assms(2) by (simp add: target_def)
  have k: "tick e nt (count v) w =
           (Raises EventTargetGone, log (Tick nt (count v)) (w\<lparr>ticks := ticks w + 1\<rparr>))"
    using assms(1,3) t by (simp add: tick_def Let_def log_def)
  have a: "after_wait e nt v w = (Break, log (Tick nt (count v)) (w\<lparr>ticks := ticks w + 1\<rparr>))"
    using k assms(4) by (simp add: after_wait_def)
  have r: "run_loop (Suc n) e v0 w0 =
           Some (Returns (), log (Tick nt (count v)) (w\<lparr>ticks := ticks w + 1\<rparr>))"
    using run_loop_Suc [OF assms(5), of n e] assms(6) a by simp
  show ?thesis using t k a r by (simp add: log_def)
qed

text \<open>C9 at the first tick of a timer whose target was released before it.\<close>

theorem C9_target_gone_witness:
  "callback (at_first_dispatch (posting_timer None True False)) = None
   \<and> \<not> alive (calm\<lparr>alive := (\<lambda>k. False)\<rparr>) (ticks (at_first_dispatch (posting_timer None True False)))
   \<and> \<not> app_exit (calm\<lparr>alive := (\<lambda>k. False)\<rparr>) (ticks (at_first_dispatch (posting_timer None True False)))
   \<and> \<not> reset (at_first_dispatch (posting_timer None True False))
   \<and> loop_cond (active_event (spawn (posting_timer None True False))) \<lparr>start = 0, count = 0\<rparr>
   \<and> body (calm\<lparr>alive := (\<lambda>k. False)\<rparr>) \<lparr>start = 0, count = 0\<rparr>
        (active_event (spawn (posting_timer None True False)))
      = after_wait (calm\<lparr>alive := (\<lambda>k. False)\<rparr>) 1 \<lparr>start = 0, count = 1\<rparr>
          (at_first_dispatch (posting_timer None True False))
   \<and> target (calm\<lparr>alive := (\<lambda>k. False)\<rparr>) 0 (at_first_dispatch (posting_timer None True False))
      = Inl EventTargetGone
   \<and> map_option (\<lambda>(res, w). (res, trace w))
        (run_loop (Suc 0) (calm\<lparr>alive := (\<lambda>k. False)\<rparr>) \<lparr>start = 0, count = 0\<rparr>
           (active_event (spawn (posting_timer None True False))))
      = Some (Returns (), [GetTime 0, GetTime 0, Sleep 1, GateWait False, Tick 1 1])"
  using C9_target_gone [of "at_first_dispatch (posting_timer None True False)"
               "calm\<lparr>alive := (\<lambda>k. False)\<rparr>"
               "active_event (spawn (posting_timer None True False))" "\<lparr>start = 0, count = 0\<rparr>"
               1 "\<lparr>start = 0, count = 1\<rparr>" 0]
  by (simp add: scen ops upd_order at_first_dispatch_def)

text \<open>The whole task of such a timer: it returns, and its trace holds no posted event.\<close>

lemma target_released_before_first_tick:
  "map_option (\<lambda>(res, w). (res, trace w))
     (run_timer 1 (calm\<lparr>alive := (\<lambda>k. False)\<rparr>) (spawn (posting_timer None True False))) =
   Some (Returns (),
         [GateWait False, GetTime 0, GetTime 0, GetTime 0, Sleep 1, GateWait False, Tick 1 1])"
  by (simp add: scen ops)

end
